theory Spec2Isabelle
  imports Main "HOL-Library.Sublist"
begin

section \<open>The Go runtime and the standard library functions the code calls\<close>

text \<open>
  Go strings and byte slices are byte sequences: \<^typ>\<open>string\<close>. The type \<open>int\<close> of
  Go is taken to be 64 bits wide (\<open>strconv.IntSize = 64\<close>); the code only compares and
  stores such values, so they are modelled as \<^typ>\<open>int\<close>, with the clamping of
  \<open>strconv\<close> written out. A run-time panic is a value of \<open>error\<close>.
\<close>

datatype error = IndexOutOfRange int nat | SliceOutOfRange int nat | NilMapAssign

text \<open>\<open>xs[i]\<close>: panics unless \<open>0 \<le> i < len(xs)\<close>.\<close>

definition go_index :: "'a list \<Rightarrow> int \<Rightarrow> error + 'a" where
  "go_index xs i =
     (if 0 \<le> i \<and> i < int (length xs) then Inr (xs ! nat i)
      else Inl (IndexOutOfRange i (length xs)))"

text \<open>\<open>xs[i:]\<close>: panics unless \<open>0 \<le> i \<le> len(xs)\<close>.\<close>

definition slice_from :: "'a list \<Rightarrow> int \<Rightarrow> error + 'a list" where
  "slice_from xs i =
     (if 0 \<le> i \<and> i \<le> int (length xs) then Inr (drop (nat i) xs)
      else Inl (SliceOutOfRange i (length xs)))"

text \<open>
  \<open>strings.Index(s, sep)\<close> (and \<open>bytes.Index\<close>): the position of the first occurrence
  of \<open>sep\<close> in \<open>s\<close>, or \<open>-1\<close>.
\<close>

fun find_sub :: "string \<Rightarrow> string \<Rightarrow> nat option" where
  "find_sub sep [] = (if sep = [] then Some 0 else None)"
| "find_sub sep (c # cs) =
     (if prefix sep (c # cs) then Some 0 else map_option Suc (find_sub sep cs))"

definition Index :: "string \<Rightarrow> string \<Rightarrow> int" where
  "Index s sep = (case find_sub sep s of None \<Rightarrow> - 1 | Some i \<Rightarrow> int i)"

text \<open>
  \<open>strings.Split(s, sep)\<close> (and \<open>bytes.Split\<close>) for a non-empty separator: cut at the
  first occurrence, go on behind it. With an empty separator Go cuts after each UTF-8
  sequence; the code never does that, and the model cuts after each byte there.
\<close>

function Split :: "string \<Rightarrow> string \<Rightarrow> string list" where
  "Split s sep =
     (if sep = [] then map (\<lambda>c. [c]) s
      else case find_sub sep s of
             None \<Rightarrow> [s]
           | Some m \<Rightarrow> take m s # Split (drop (m + length sep) s) sep)"
  by pat_completeness auto
termination
proof (relation "measure (\<lambda>(s, sep). length s)")
  show "wf (measure (\<lambda>(s, sep). length s))" by simp
next
  fix s sep :: string and m :: nat
  assume sep: "sep \<noteq> []" and m: "find_sub sep s = Some m"
  have "s \<noteq> []" using sep m by (cases s) auto
  then show "((drop (m + length sep) s, sep), (s, sep)) \<in> measure (\<lambda>(s, sep). length s)"
    using sep by (cases s) auto
qed

declare Split.simps [simp del]

text \<open>
  \<open>strings.SplitN(s, sep, 2)\<close> for a non-empty separator: at most one cut, at the first
  occurrence.
\<close>

definition SplitN2 :: "string \<Rightarrow> string \<Rightarrow> string list" where
  "SplitN2 s sep =
     (case find_sub sep s of
        None \<Rightarrow> [s]
      | Some m \<Rightarrow> [take m s, drop (m + length sep) s])"

subsection \<open>strconv.Atoi\<close>

datatype NumError = ErrSyntax | ErrRange

definition maxUint64 :: nat where
  "maxUint64 = 2 ^ 64 - 1"

text \<open>The fast path of \<open>Atoi\<close>: \<open>ch -= '0'\<close> on a byte wraps around.\<close>

definition byte_minus_0 :: "char \<Rightarrow> nat" where
  "byte_minus_0 c = (of_char c + 256 - 48) mod 256"

fun atoi_fast :: "string \<Rightarrow> nat \<Rightarrow> nat option" where
  "atoi_fast [] n = Some n"
| "atoi_fast (ch # cs) n =
     (if byte_minus_0 ch > 9 then None else atoi_fast cs (n * 10 + byte_minus_0 ch))"

text \<open>
  The loop of \<open>ParseUint(s, 10, 64)\<close>: a byte that is no digit is a syntax error with
  value 0; an overflow returns at once with the largest value and a range error, the
  bytes behind it unread.
\<close>

fun parseUint_loop :: "string \<Rightarrow> nat \<Rightarrow> nat \<times> NumError option" where
  "parseUint_loop [] n = (n, None)"
| "parseUint_loop (c # cs) n =
     (if \<not> (48 \<le> (of_char c :: nat) \<and> (of_char c :: nat) \<le> 57) then (0, Some ErrSyntax)
      else if n \<ge> maxUint64 div 10 + 1 then (maxUint64, Some ErrRange)
      else let n1 = n * 10 + (of_char c - 48)
           in if n1 > maxUint64 then (maxUint64, Some ErrRange)
              else parseUint_loop cs n1)"

definition ParseUint :: "string \<Rightarrow> nat \<times> NumError option" where
  "ParseUint s = (if s = [] then (0, Some ErrSyntax) else parseUint_loop s 0)"

definition ParseInt :: "string \<Rightarrow> int \<times> NumError option" where
  "ParseInt s =
     (if s = [] then (0, Some ErrSyntax)
      else
        let neg = (hd s = CHR ''-'');
            s1 = (if hd s = CHR ''+'' \<or> hd s = CHR ''-'' then tl s else s);
            (un, err) = ParseUint s1
        in if err = Some ErrSyntax then (0, err)
           else if \<not> neg \<and> un \<ge> 2 ^ 63 then (2 ^ 63 - 1, Some ErrRange)
           else if neg \<and> un > 2 ^ 63 then (- (2 ^ 63), Some ErrRange)
           else (if neg then - int un else int un, None))"

definition Atoi :: "string \<Rightarrow> int \<times> NumError option" where
  "Atoi s =
     (if 0 < length s \<and> length s < 19 then
        let s1 = (if hd s = CHR ''-'' \<or> hd s = CHR ''+'' then tl s else s)
        in if (hd s = CHR ''-'' \<or> hd s = CHR ''+'') \<and> length s1 < 1 then (0, Some ErrSyntax)
           else case atoi_fast s1 0 of
                  None \<Rightarrow> (0, Some ErrSyntax)
                | Some n \<Rightarrow> (if hd s = CHR ''-'' then - int n else int n, None)
      else ParseInt s)"

section \<open>Package reportable: ranges, matchers and filters\<close>

record Response =
  Code :: int
  Length :: int
  Raw :: string

type_synonym Matcher = "Response \<Rightarrow> bool"
type_synonym Filter = "Response \<Rightarrow> bool"

record Range =
  From :: int
  To :: int

fun isValueInRanges :: "Range list \<Rightarrow> int \<Rightarrow> bool" where
  "isValueInRanges [] val = False"
| "isValueInRanges (rng # ranges) val =
     (if val \<ge> From rng \<and> val \<le> To rng then True else isValueInRanges ranges val)"

definition parseRange :: "string \<Rightarrow> error + Range" where
  "parseRange val =
     (let splitted = Split val ''-'' in
      case go_index splitted 0 of
        Inl e \<Rightarrow> Inl e
      | Inr s0 \<Rightarrow>
          let from = fst (Atoi s0) in
          if length splitted = 2 then
            (case go_index splitted 1 of
               Inl e \<Rightarrow> Inl e
             | Inr s1 \<Rightarrow> Inr \<lparr>From = from, To = fst (Atoi s1)\<rparr>)
          else Inr \<lparr>From = from, To = from\<rparr>)"

fun parseRanges_loop :: "string list \<Rightarrow> Range list \<Rightarrow> error + Range list" where
  "parseRanges_loop [] ranges = Inr ranges"
| "parseRanges_loop (rng # rest) ranges =
     (case parseRange rng of
        Inl e \<Rightarrow> Inl e
      | Inr r \<Rightarrow> parseRanges_loop rest (ranges @ [r]))"

definition parseRanges :: "string \<Rightarrow> error + Range list" where
  "parseRanges val = parseRanges_loop (Split val '','') []"

text \<open>
  The four constructors parse the ranges first (where a panic would happen) and return
  the closure.
\<close>

definition MatchCodes :: "string \<Rightarrow> error + Matcher" where
  "MatchCodes codes =
     (case parseRanges codes of
        Inl e \<Rightarrow> Inl e
      | Inr ranges \<Rightarrow> Inr (\<lambda>res. isValueInRanges ranges (Code res)))"

definition MatchLengths :: "string \<Rightarrow> error + Matcher" where
  "MatchLengths lens =
     (case parseRanges lens of
        Inl e \<Rightarrow> Inl e
      | Inr ranges \<Rightarrow> Inr (\<lambda>res. isValueInRanges ranges (Length res)))"

definition FilterCodes :: "string \<Rightarrow> error + Filter" where
  "FilterCodes codes =
     (case parseRanges codes of
        Inl e \<Rightarrow> Inl e
      | Inr ranges \<Rightarrow> Inr (\<lambda>res. \<not> isValueInRanges ranges (Code res)))"

definition FilterLengths :: "string \<Rightarrow> error + Filter" where
  "FilterLengths lens =
     (case parseRanges lens of
        Inl e \<Rightarrow> Inl e
      | Inr ranges \<Rightarrow> Inr (\<lambda>res. \<not> isValueInRanges ranges (Length res)))"

text \<open>The two loops of \<open>IsReportable\<close>, each leaving at its \<open>break\<close>.\<close>

fun matchers_loop :: "Matcher list \<Rightarrow> Response \<Rightarrow> bool" where
  "matchers_loop [] res = False"
| "matchers_loop (matcher # rest) res = (if matcher res then True else matchers_loop rest res)"

fun filters_loop :: "Filter list \<Rightarrow> Response \<Rightarrow> bool" where
  "filters_loop [] res = True"
| "filters_loop (flt # rest) res = (if \<not> flt res then False else filters_loop rest res)"

definition IsReportable :: "Response \<Rightarrow> Matcher list \<Rightarrow> Filter list \<Rightarrow> bool" where
  "IsReportable res matchers filters =
     (let matched = matchers_loop matchers res;
          filtered = filters_loop filters res
      in filtered \<and> (matched \<or> length matchers = 0))"

section \<open>Verified properties: ranges, matchers and filters\<close>

subsection \<open>Helper facts\<close>

lemma matchers_loop_iff: "matchers_loop ms r = (\<exists>m \<in> set ms. m r)"
  by (induction ms) auto

lemma filters_loop_iff: "filters_loop fs r = (\<forall>f \<in> set fs. f r)"
  by (induction fs) auto

lemma Split_not_Nil: "sep \<noteq> [] \<Longrightarrow> Split s sep \<noteq> []"
  by (subst Split.simps) (simp split: option.split)

lemma go_index_0: "xs \<noteq> [] \<Longrightarrow> go_index xs 0 = Inr (hd xs)"
  by (cases xs) (simp_all add: go_index_def)

lemma go_index_1: "length xs = 2 \<Longrightarrow> go_index xs 1 = Inr (xs ! 1)"
  by (simp add: go_index_def)

lemma parseRange_total: "\<exists>r. parseRange val = Inr r"
  by (simp add: parseRange_def Let_def go_index_0 go_index_1 Split_not_Nil)

lemma parseRanges_loop_total: "\<exists>rs. parseRanges_loop toks acc = Inr rs"
proof (induction toks arbitrary: acc)
  case Nil
  show ?case by simp
next
  case (Cons t toks)
  obtain r where r: "parseRange t = Inr r" using parseRange_total by blast
  show ?case using Cons.IH [of "acc @ [r]"] by (simp add: r)
qed

lemma parseRanges_total: "\<exists>rs. parseRanges val = Inr rs"
  by (simp add: parseRanges_def parseRanges_loop_total)

subsection \<open>C1: the combination rule of \<open>IsReportable\<close>\<close>

text \<open>
  C1. For every response, every list of matchers and every list of filters,
  \<open>IsReportable\<close> is true exactly when every filter is true on the response and
  (some matcher is true on it or there is no matcher). In particular, with no matcher and
  one filter that is true the result is true, and with one matcher that is false and no
  filter the result is false.
\<close>

theorem IsReportable_iff:
  "(IsReportable r ms fs = ((\<forall>f \<in> set fs. f r) \<and> ((\<exists>m \<in> set ms. m r) \<or> ms = [])))
   \<and> (f r \<longrightarrow> IsReportable r [] [f])
   \<and> (\<not> m r \<longrightarrow> \<not> IsReportable r [m] [])"
  by (simp add: IsReportable_def matchers_loop_iff filters_loop_iff)

theorem IsReportable_iff_witness:
  "IsReportable \<lparr>Code = 404, Length = 512, Raw = []\<rparr> []
     [\<lambda>res. \<not> (200 \<le> Code res \<and> Code res \<le> 299)]
   \<and> \<not> IsReportable \<lparr>Code = 404, Length = 512, Raw = []\<rparr>
     [\<lambda>res. 200 \<le> Code res \<and> Code res \<le> 299] []"
  using IsReportable_iff [of "\<lparr>Code = 404, Length = 512, Raw = []\<rparr>" "[]"
      "[\<lambda>res. \<not> (200 \<le> Code res \<and> Code res \<le> 299)]"
      "\<lambda>res. \<not> (200 \<le> Code res \<and> Code res \<le> 299)"
      "\<lambda>res. 200 \<le> Code res \<and> Code res \<le> 299"]
  by simp

subsection \<open>C6: a filter is the negation of the matcher of the same ranges\<close>

text \<open>
  C6. For every ranges text \<open>s\<close>, both constructors return (neither panics), and on every
  response the filter built from \<open>s\<close> is the negation of the matcher built from \<open>s\<close>, for
  status codes and for lengths.
\<close>

theorem filters_negate_matchers:
  "(\<exists>f m. FilterCodes s = Inr f \<and> MatchCodes s = Inr m \<and> (\<forall>r. f r = (\<not> m r)))
   \<and> (\<exists>f m. FilterLengths s = Inr f \<and> MatchLengths s = Inr m \<and> (\<forall>r. f r = (\<not> m r)))"
proof -
  obtain rs where rs: "parseRanges s = Inr rs" using parseRanges_total by blast
  show ?thesis
    by (simp add: FilterCodes_def MatchCodes_def FilterLengths_def MatchLengths_def rs)
qed

end
